theory Spec2Isabelle
  imports Complex_Main
begin

section \<open>The induction-motor digital twin: data model\<close>

text \<open>
  The class \<open>Motor\<close> of \<open>digitaltwin_powertrain.py\<close> keeps the machine parameters, the
  simulation parameters, the integrated state and the recorded output channels as
  attributes of one object. The record below has one field per attribute, under the
  attribute's name. Python floats are modelled as real numbers, so rounding, overflow to
  infinity and NaN are outside the model.

  A division whose divisor is zero has no real value. Python raises
  \<open>ZeroDivisionError\<close> there when both operands are Python numbers, and numpy scalars
  give an infinity or NaN with a warning; the model returns the error in both cases.
\<close>

datatype error = ZeroDivisionError

record motor =
  rs :: real
  rr :: real
  ls :: real
  lr :: real
  msr :: real
  lso :: real
  f_onda_p :: real
  f_onda_m :: real
  q1 :: int
  q2 :: int
  q3 :: int
  jm :: real
  kf :: real
  cte_tempo_mec :: real
  idt :: real
  p :: real
  amsr :: real
  valor_mu :: real
  h :: real
  tmax :: real
  hp :: real
  cl :: real
  wm :: real
  t :: real
  tp :: real
  j :: int
  ce :: real
  ws :: real
  Vsm :: real
  Vs :: real
  tete :: real
  fsd :: real
  fsq :: real
  frd :: real
  frq :: real
  isd :: real
  isq :: real
  ird :: real
  irq :: real
  iso :: real
  rg :: real
  temp :: real
  m :: real
  C :: real
  tempo :: "real list"
  corrented :: "real list"
  correnteq :: "real list"
  corrente1 :: "real list"
  corrente2 :: "real list"
  corrente3 :: "real list"
  tensao1 :: "real list"
  tensao2 :: "real list"
  tensao3 :: "real list"
  tensaosd :: "real list"
  tensaosq :: "real list"
  fluxord :: "real list"
  fluxorq :: "real list"
  fluxos1 :: "real list"
  fluxos2 :: "real list"
  fluxos3 :: "real list"
  fluxosd :: "real list"
  fluxosq :: "real list"
  fluxos :: "real list"
  conjugado :: "real list"
  velocidade :: "real list"
  frequencia :: "real list"
  conjcarga :: "real list"
  correnteo :: "real list"
  torque_mecanico :: "real list"
  temperatura :: "real list"

text \<open>
  The three numeric constants \<open>self.pi23\<close>, \<open>self.rq23\<close> and \<open>self.rq3\<close> are bound once
  in \<open>__init__\<close> and never assigned again; they are constants of the model.
\<close>

definition pi23 :: real where
  "pi23 = 2 * pi / 3"

definition rq23 :: real where
  "rq23 = sqrt (2 / 3)"

definition rq3 :: real where
  "rq3 = sqrt 3"

section \<open>Construction\<close>

definition reset_initial_conditions :: "motor \<Rightarrow> motor" where
  "reset_initial_conditions s =
     s\<lparr>cl := 0, wm := 0, t := 0, tp := 0, j := 0, ce := 0, ws := 377,
       Vsm := 220 * sqrt 2, Vs := 220 * sqrt 2, tete := 0,
       fsd := 0, fsq := 0, frd := 0, frq := 0,
       isd := 0, isq := 0, ird := 0, irq := 0, iso := 0, rg := 0,
       temp := 25, m := 65 / 1.5, C := 0.385\<rparr>"

text \<open>
  \<open>Motor.__init__\<close>. The two divisions of the constructor are \<open>jm / kf\<close> (line 33) and
  \<open>1 / (ls * lr - msr * msr)\<close> (line 34), in this order. The step size, the horizon and
  the sampling interval are not arguments: they are the literals of lines 41 to 45.
  The attributes that \<open>reset_initial_conditions\<close> binds do not exist before the call;
  the record needs a value for them, and 0 stands there until the reset overwrites it.
\<close>

definition Motor ::
  "real \<Rightarrow> real \<Rightarrow> real \<Rightarrow> real \<Rightarrow> real \<Rightarrow> real \<Rightarrow> real \<Rightarrow> int \<Rightarrow> int \<Rightarrow> int \<Rightarrow> real
     \<Rightarrow> error + motor" where
  "Motor rs0 rr0 ls0 lr0 mrs jm0 kf0 q10 q20 q30 valor_mu0 =
     (if kf0 = 0 then Inl ZeroDivisionError
      else if ls0 * lr0 - mrs * mrs = 0 then Inl ZeroDivisionError
      else
        let idt0 = 1 / (ls0 * lr0 - mrs * mrs);
            h0 = 1 / 100000;
            tmax0 = 1;
            hp0 = tmax0 / 2000;
            hp1 = (if hp0 < h0 then h0 else hp0)
        in Inr (reset_initial_conditions
          \<lparr>rs = rs0, rr = rr0, ls = ls0, lr = lr0, msr = mrs, lso = 0.1 * ls0,
           f_onda_p = 50, f_onda_m = 5, q1 = q10, q2 = q20, q3 = q30,
           jm = jm0, kf = kf0, cte_tempo_mec = jm0 / kf0, idt = idt0, p = 2,
           amsr = 2 * idt0 * mrs, valor_mu = valor_mu0,
           h = h0, tmax = tmax0, hp = hp1,
           cl = 0, wm = 0, t = 0, tp = 0, j = 0, ce = 0, ws = 0, Vsm = 0, Vs = 0,
           tete = 0, fsd = 0, fsq = 0, frd = 0, frq = 0, isd = 0, isq = 0, ird = 0,
           irq = 0, iso = 0, rg = 0, temp = 0, m = 0, C = 0,
           tempo = [], corrented = [], correnteq = [], corrente1 = [], corrente2 = [],
           corrente3 = [], tensao1 = [], tensao2 = [], tensao3 = [], tensaosd = [],
           tensaosq = [], fluxord = [], fluxorq = [], fluxos1 = [], fluxos2 = [],
           fluxos3 = [], fluxosd = [], fluxosq = [], fluxos = [], conjugado = [],
           velocidade = [], frequencia = [], conjcarga = [], correnteo = [],
           torque_mecanico = [], temperatura = []\<rparr>))"

section \<open>Excitation and coordinate transforms\<close>

definition source_voltage :: "motor \<Rightarrow> motor \<times> real \<times> real \<times> real" where
  "source_voltage s =
     (let s1 = s\<lparr>tete := tete s + h s * ws s\<rparr>;
          s2 = (if 2 * pi \<le> tete s1 then s1\<lparr>tete := tete s1 - 2 * pi\<rparr> else s1)
      in (s2, Vs s2 * cos (tete s2), Vs s2 * cos (tete s2 - pi23),
          Vs s2 * cos (tete s2 + pi23)))"

definition load_torque :: "motor \<Rightarrow> motor" where
  "load_torque s = (if tmax s / 2 \<le> t s then s\<lparr>cl := 40\<rparr> else s)"

definition direct_voltage_and_quadrature :: "real \<Rightarrow> real \<Rightarrow> real \<Rightarrow> real \<times> real \<times> real" where
  "direct_voltage_and_quadrature vs1 vs2 vs3 =
     (rq23 * (vs1 - vs2 / 2 - vs3 / 2),
      rq23 * (vs2 * rq3 / 2 - vs3 * rq3 / 2),
      (vs1 + vs2 + vs3) / rq3)"

section \<open>Electrical state\<close>

definition calculate_derivatives ::
  "motor \<Rightarrow> real \<Rightarrow> real \<Rightarrow> real \<Rightarrow> error + (real \<times> real \<times> real \<times> real \<times> real)" where
  "calculate_derivatives s vsd vsq vso =
     (if lso s = 0 then Inl ZeroDivisionError
      else Inr (vsd - rs s * isd s,
                vsq - rs s * isq s,
                - rr s * ird s - frq s * wm s,
                - rr s * irq s + frd s * wm s,
                (vso - rs s * iso s) / lso s))"

definition update_fluxes_and_currents ::
  "motor \<Rightarrow> real \<Rightarrow> real \<Rightarrow> real \<Rightarrow> real \<Rightarrow> real \<Rightarrow> motor \<times> real" where
  "update_fluxes_and_currents s dervfsd dervfsq dervfrd dervfrq deriso =
     (let s1 = s\<lparr>fsd := fsd s + dervfsd * h s\<rparr>;
          s2 = s1\<lparr>fsq := fsq s1 + dervfsq * h s1\<rparr>;
          s3 = s2\<lparr>frd := frd s2 + dervfrd * h s2\<rparr>;
          s4 = s3\<lparr>frq := frq s3 + dervfrq * h s3\<rparr>;
          s5 = s4\<lparr>iso := iso s4 + deriso * h s4\<rparr>
      in (s5, lso s5 * iso s5))"

definition calculate_electromagnetic_torque :: "motor \<Rightarrow> motor \<times> real" where
  "calculate_electromagnetic_torque s =
     (let s1 = s\<lparr>ce := amsr s * (fsq s * frd s - fsd s * frq s)\<rparr>;
          s2 = s1\<lparr>isd := idt s1 * (lr s1 * fsd s1 - msr s1 * frd s1)\<rparr>;
          s3 = s2\<lparr>isq := idt s2 * (lr s2 * fsq s2 - msr s2 * frq s2)\<rparr>;
          s4 = s3\<lparr>ird := idt s3 * (- msr s3 * fsd s3 + ls s3 * frd s3)\<rparr>;
          s5 = s4\<lparr>irq := idt s4 * (- msr s4 * fsq s4 + ls s4 * frq s4)\<rparr>
      in (s5, ce s5))"

definition currents_and_fluxes_phases ::
  "motor \<Rightarrow> real \<Rightarrow> real \<times> real \<times> real \<times> real \<times> real \<times> real" where
  "currents_and_fluxes_phases s fso =
     (rq23 * isd s + iso s / rq3,
      rq23 * (- isd s / 2 + rq3 * isq s / 2) + iso s / rq3,
      rq23 * (- isd s / 2 - rq3 * isq s / 2) + iso s / rq3,
      rq23 * fsd s + fso / rq3,
      rq23 * (- fsd s / 2 + rq3 * fsq s / 2) + fso / rq3,
      rq23 * (- fsd s / 2 - rq3 * fsq s / 2) + fso / rq3)"

section \<open>Mechanical and thermal state\<close>

definition mechanical_speed :: "motor \<Rightarrow> error + real" where
  "mechanical_speed s =
     (if jm s = 0 then Inl ZeroDivisionError
      else Inr (wm s + (ce s - cl s - wm s * kf s) * h s / jm s))"

definition mechanical_torque :: "motor \<Rightarrow> real" where
  "mechanical_torque s = ce s - cl s"

text \<open>
  \<open>calcular_temperatura(self, h)\<close> never reads its parameter: line 418 uses \<open>self.h\<close>.
  The model keeps the unused argument. The three phase currents are components 0, 1
  and 2 of \<open>currents_and_fluxes_phases(1)\<close>.
\<close>

definition calcular_temperatura :: "motor \<Rightarrow> real \<Rightarrow> error + (motor \<times> real)" where
  "calcular_temperatura s h_arg =
     (let corrente_eficaz =
            sqrt ((fst (currents_and_fluxes_phases s 1)) ^ 2
                + (fst (snd (currents_and_fluxes_phases s 1))) ^ 2
                + (fst (snd (snd (currents_and_fluxes_phases s 1)))) ^ 2);
          potencia_perdida = rs s * corrente_eficaz ^ 2
      in if m s * C s = 0 then Inl ZeroDivisionError
         else
           let dT = (potencia_perdida * h s) / (m s * C s);
               s1 = s\<lparr>temp := temp s + dT\<rparr>
           in Inr (s1, temp s1))"

section \<open>Recording and the simulation loop\<close>

definition outputs ::
  "motor \<Rightarrow> real \<Rightarrow> real \<Rightarrow> real \<Rightarrow> real \<Rightarrow> real \<Rightarrow> real \<Rightarrow> real \<Rightarrow> real \<Rightarrow> real \<Rightarrow> real \<Rightarrow> real
     \<Rightarrow> motor" where
  "outputs s is1 is2 is3 fs1 fs2 fs3 fso cm vso vsd vsq =
     s\<lparr>tempo := tempo s @ [t s],
       corrented := corrented s @ [isd s],
       correnteq := correnteq s @ [isq s],
       corrente1 := corrente1 s @ [is1],
       corrente2 := corrente2 s @ [is2],
       corrente3 := corrente3 s @ [is3],
       tensao1 := tensao1 s @ [vso],
       tensao2 := tensao2 s @ [vsd],
       tensao3 := tensao3 s @ [vsq],
       fluxord := fluxord s @ [frd s],
       fluxorq := fluxorq s @ [frq s],
       fluxosd := fluxosd s @ [fsd s],
       fluxosq := fluxosq s @ [fsq s],
       fluxos1 := fluxos1 s @ [fs1],
       fluxos2 := fluxos2 s @ [fs2],
       fluxos3 := fluxos3 s @ [fs3],
       fluxos := fluxos s @ [fso],
       conjugado := conjugado s @ [ce s],
       velocidade := velocidade s @ [wm s],
       correnteo := correnteo s @ [iso s],
       frequencia := frequencia s @ [ws s],
       torque_mecanico := torque_mecanico s @ [cm],
       conjcarga := conjcarga s @ [cl s],
       temperatura := temperatura s @ [temp s]\<rparr>"

text \<open>
  One pass through the body of the \<open>while\<close> loop of \<open>simulate\<close> (lines 450 to 463),
  statement by statement.
\<close>

definition simulate_step :: "motor \<Rightarrow> error + motor" where
  "simulate_step s =
     (let s1 = s\<lparr>t := t s + h s\<rparr>;
          (s2, vs1, vs2, vs3) = source_voltage s1;
          s3 = load_torque s2;
          (vsd, vsq, vso) = direct_voltage_and_quadrature vs1 vs2 vs3
      in case calculate_derivatives s3 vsd vsq vso of
           Inl e \<Rightarrow> Inl e
         | Inr (dervfsd, dervfsq, dervfrd, dervfrq, deriso) \<Rightarrow>
             (let (s4, fso) = update_fluxes_and_currents s3 dervfsd dervfsq dervfrd dervfrq deriso;
                  s5 = fst (calculate_electromagnetic_torque s4);
                  (is1, is2, is3, fs1, fs2, fs3) = currents_and_fluxes_phases s5 fso
              in (case mechanical_speed s5 of
                    Inl e \<Rightarrow> Inl e
                  | Inr w \<Rightarrow>
                      (let s6 = s5\<lparr>wm := w\<rparr>;
                           cm = mechanical_torque s6
                       in (case calcular_temperatura s6 (h s6) of
                             Inl e \<Rightarrow> Inl e
                           | Inr (s7, temp7) \<Rightarrow>
                               (let s8 = s7\<lparr>temp := temp7\<rparr>
                                in (if tp s8 \<le> t s8
                                    then Inr (outputs (s8\<lparr>tp := tp s8 + hp s8\<rparr>)
                                                is1 is2 is3 fs1 fs2 fs3 fso cm vso vsd vsq)
                                    else Inr s8)))))))"

text \<open>
  The loop \<open>while self.t < self.tmax\<close> does not end when the step size is not
  positive, so the model counts iterations: \<open>simulate n s\<close> is \<open>None\<close> when \<open>n\<close>
  iterations do not reach the horizon, and otherwise the error raised or the final state.
\<close>

fun simulate :: "nat \<Rightarrow> motor \<Rightarrow> (error + motor) option" where
  "simulate 0 s = (if t s < tmax s then None else Some (Inr s))"
| "simulate (Suc n) s =
     (if t s < tmax s
      then (case simulate_step s of
              Inl e \<Rightarrow> Some (Inl e)
            | Inr s' \<Rightarrow> simulate n s')
      else Some (Inr s))"

section \<open>Binary64 arithmetic\<close>

text \<open>
  Python floats and numpy scalars are IEEE 754 binary64 numbers: every arithmetic
  operation returns the exact result rounded to the nearest number with a 53-bit
  significand, ties going to the even significand. \<open>fl\<close> is that rounding on the
  reals, with the exponent range left unbounded (no overflow, no subnormal numbers:
  every value it is applied to below lies between \<open>1e-5\<close> and \<open>1e16\<close> in magnitude).
\<close>

definition round_half_even :: "real \<Rightarrow> int" where
  "round_half_even y =
     (let n = \<lfloor>y\<rfloor>; r = y - of_int n
      in if r < 1 / 2 then n else if 1 / 2 < r then n + 1 else if even n then n else n + 1)"

definition fl :: "real \<Rightarrow> real" where
  "fl x =
     (if x = 0 then 0
      else let u = 2 powr (of_int \<lfloor>log 2 \<bar>x\<bar>\<rfloor> - 52)
           in of_int (round_half_even (x / u)) * u)"

text \<open>
  The two coordinate transforms with every operation rounded by \<open>rd\<close>, in the order
  Python evaluates the expressions of lines 188 to 190 and 344 to 351. The constants
  are \<open>np.sqrt(2 / 3)\<close>, where the quotient is rounded before the root, and
  \<open>np.sqrt(3)\<close>. Unary minus is exact. With \<open>rd = fl\<close> these are the values the
  program computes; with the identity for \<open>rd\<close> they are the real-valued definitions
  above.
\<close>

definition rq23_rd :: "(real \<Rightarrow> real) \<Rightarrow> real" where
  "rq23_rd rd = rd (sqrt (rd (2 / 3)))"

definition rq3_rd :: "(real \<Rightarrow> real) \<Rightarrow> real" where
  "rq3_rd rd = rd (sqrt 3)"

definition direct_voltage_and_quadrature_rd ::
  "(real \<Rightarrow> real) \<Rightarrow> real \<Rightarrow> real \<Rightarrow> real \<Rightarrow> real \<times> real \<times> real" where
  "direct_voltage_and_quadrature_rd rd vs1 vs2 vs3 =
     (rd (rq23_rd rd * rd (rd (vs1 - rd (vs2 / 2)) - rd (vs3 / 2))),
      rd (rq23_rd rd * rd (rd (rd (vs2 * rq3_rd rd) / 2) - rd (rd (vs3 * rq3_rd rd) / 2))),
      rd (rd (rd (vs1 + vs2) + vs3) / rq3_rd rd))"

definition currents_and_fluxes_phases_rd ::
  "(real \<Rightarrow> real) \<Rightarrow> motor \<Rightarrow> real \<Rightarrow> real \<times> real \<times> real \<times> real \<times> real \<times> real" where
  "currents_and_fluxes_phases_rd rd s fso =
     (rd (rd (rq23_rd rd * isd s) + rd (iso s / rq3_rd rd)),
      rd (rd (rq23_rd rd * rd (rd (- isd s / 2) + rd (rd (rq3_rd rd * isq s) / 2)))
          + rd (iso s / rq3_rd rd)),
      rd (rd (rq23_rd rd * rd (rd (- isd s / 2) - rd (rd (rq3_rd rd * isq s) / 2)))
          + rd (iso s / rq3_rd rd)),
      rd (rd (rq23_rd rd * fsd s) + rd (fso / rq3_rd rd)),
      rd (rd (rq23_rd rd * rd (rd (- fsd s / 2) + rd (rd (rq3_rd rd * fsq s) / 2)))
          + rd (fso / rq3_rd rd)),
      rd (rd (rq23_rd rd * rd (rd (- fsd s / 2) - rd (rd (rq3_rd rd * fsq s) / 2)))
          + rd (fso / rq3_rd rd)))"

text \<open>
  \<open>Motor.example\<close> builds the machine with the reference parameters
  \<open>Motor(0.39, 1.41, 0.094, 0.094, 0.091, 0.04, 0.01, q1=1, q2=1, q3=0, valor_mu=1)\<close>;
  \<open>example_motor\<close> is the object this call returns.
\<close>

definition example_motor :: motor where
  "example_motor =
     projr (Motor (39 / 100) (141 / 100) (94 / 1000) (94 / 1000) (91 / 1000) (4 / 100) (1 / 100)
              1 1 0 1)"

text \<open>
  The state that \<open>reset_initial_conditions\<close> gives the electrical and mechanical
  attributes: every flux, every current, the speed and the torque are zero.
\<close>

definition at_rest :: "motor \<Rightarrow> bool" where
  "at_rest s \<longleftrightarrow>
     fsd s = 0 \<and> fsq s = 0 \<and> frd s = 0 \<and> frq s = 0 \<and>
     isd s = 0 \<and> isq s = 0 \<and> ird s = 0 \<and> irq s = 0 \<and> iso s = 0 \<and>
     wm s = 0 \<and> ce s = 0"

text \<open>
  The state after the first \<open>n\<close> iterations of the loop of \<open>simulate\<close> (fewer when
  the guard \<open>self.t < self.tmax\<close> fails earlier), or the error an iteration raised.
\<close>

fun simulate_prefix :: "nat \<Rightarrow> motor \<Rightarrow> error + motor" where
  "simulate_prefix 0 s = Inr s"
| "simulate_prefix (Suc n) s =
     (if t s < tmax s
      then (case simulate_step s of Inl e \<Rightarrow> Inl e | Inr s' \<Rightarrow> simulate_prefix n s')
      else Inr s)"


section \<open>The reference machine\<close>

lemma example_motor_params:
  "rs example_motor = 39 / 100" "rr example_motor = 141 / 100"
  "ls example_motor = 47 / 500" "lr example_motor = 47 / 500"
  "msr example_motor = 91 / 1000" "lso example_motor = 47 / 5000"
  "jm example_motor = 1 / 25" "kf example_motor = 1 / 100"
  "idt example_motor = 200000 / 111"
  "h example_motor = 1 / 100000" "tmax example_motor = 1" "hp example_motor = 1 / 2000"
  "m example_motor = 130 / 3" "C example_motor = 77 / 200"
  by (simp_all add: example_motor_def Motor_def reset_initial_conditions_def Let_def)

lemma example_motor_state:
  "cl example_motor = 0" "wm example_motor = 0" "t example_motor = 0" "tp example_motor = 0"
  "ce example_motor = 0" "temp example_motor = 25"
  "fsd example_motor = 0" "fsq example_motor = 0" "frd example_motor = 0"
  "frq example_motor = 0" "isd example_motor = 0" "isq example_motor = 0"
  "ird example_motor = 0" "irq example_motor = 0" "iso example_motor = 0"
  "tempo example_motor = []"
  by (simp_all add: example_motor_def Motor_def reset_initial_conditions_def Let_def)

section \<open>The electrical step\<close>

text \<open>
  C1. One electrical step is \<open>calculate_derivatives\<close> followed by
  \<open>update_fluxes_and_currents\<close>. For every state whose leakage inductance \<open>lso\<close> is not
  zero and every applied dq0 voltage, the derivatives are
  \<open>vsd - rs * isd\<close>, \<open>vsq - rs * isq\<close>, \<open>- rr * ird - frq * wm\<close>,
  \<open>- rr * irq + frd * wm\<close> and \<open>(vso - rs * iso) / lso\<close>; the update adds
  \<open>derivative * h\<close> to each of the four fluxes and to \<open>iso\<close>, changes no other
  attribute, and returns the zero-sequence flux \<open>lso * iso\<close> computed from the updated
  \<open>iso\<close>.
\<close>

theorem electrical_step_euler:
  assumes "lso s \<noteq> 0"
  shows "calculate_derivatives s vsd vsq vso =
           Inr (vsd - rs s * isd s, vsq - rs s * isq s,
                - rr s * ird s - frq s * wm s, - rr s * irq s + frd s * wm s,
                (vso - rs s * iso s) / lso s)
       \<and> update_fluxes_and_currents s d1 d2 d3 d4 d5 =
           (s\<lparr>fsd := fsd s + d1 * h s, fsq := fsq s + d2 * h s,
              frd := frd s + d3 * h s, frq := frq s + d4 * h s,
              iso := iso s + d5 * h s\<rparr>,
            lso s * (iso s + d5 * h s))"
  using assms by (simp add: calculate_derivatives_def update_fluxes_and_currents_def Let_def)

theorem electrical_step_euler_witness:
  "lso example_motor \<noteq> 0
   \<and> calculate_derivatives example_motor 381 1 (47 / 50) = Inr (381, 1, 0, 0, 100)
   \<and> fsd (fst (update_fluxes_and_currents example_motor 381 1 0 0 100)) = 381 / 100000
   \<and> iso (fst (update_fluxes_and_currents example_motor 381 1 0 0 100)) = 1 / 1000
   \<and> snd (update_fluxes_and_currents example_motor 381 1 0 0 100) = 47 / 5000000"
  using electrical_step_euler [of example_motor 381 1 "47 / 50" 381 1 0 0 100]
  by (simp add: example_motor_params example_motor_state)

text \<open>
  C2. For every flux state, \<open>calculate_electromagnetic_torque\<close> stores and returns
  \<open>ce = amsr * (fsq * frd - fsd * frq)\<close> and stores the four currents
  \<open>isd = idt * (lr * fsd - msr * frd)\<close>, \<open>isq = idt * (lr * fsq - msr * frq)\<close>,
  \<open>ird = idt * (- msr * fsd + ls * frd)\<close>, \<open>irq = idt * (- msr * fsq + ls * frq)\<close>:
  algebraic functions of the fluxes, with no derivative and no step size in them.
\<close>

theorem torque_and_currents_algebraic:
  "calculate_electromagnetic_torque s =
     (s\<lparr>ce := amsr s * (fsq s * frd s - fsd s * frq s),
        isd := idt s * (lr s * fsd s - msr s * frd s),
        isq := idt s * (lr s * fsq s - msr s * frq s),
        ird := idt s * (- msr s * fsd s + ls s * frd s),
        irq := idt s * (- msr s * fsq s + ls s * frq s)\<rparr>,
      amsr s * (fsq s * frd s - fsd s * frq s))"
  by (simp add: calculate_electromagnetic_torque_def Let_def)

section \<open>The dq0 transform and its inverse\<close>

lemma rq23_sq_left: "rq23 * (rq23 * x) = 2 / 3 * x"
proof -
  have "rq23 * rq23 = 2 / 3" by (simp add: rq23_def)
  then show ?thesis by (simp add: mult.assoc[symmetric])
qed

lemma rq3_sq: "rq3 * rq3 = 3"
  by (simp add: rq3_def)

lemma rq3_sq_left: "rq3 * (rq3 * x) = 3 * x"
  using rq3_sq by (simp add: mult.assoc[symmetric])

lemma inv_first: "rq23 * (rq23 * x) + y / rq3 / rq3 = 2 / 3 * x + y / 3"
  by (simp add: rq23_sq_left rq3_sq)

lemma inv_second:
  "rq23 * (- (rq23 * x) / 2 + rq3 * (rq23 * (b * rq3 / 2 - c * rq3 / 2)) / 2) + y / rq3 / rq3
     = - x / 3 + (b - c) / 2 + y / 3"
proof -
  have "rq23 * (- (rq23 * x) / 2 + rq3 * (rq23 * (b * rq3 / 2 - c * rq3 / 2)) / 2)
          = - (rq23 * (rq23 * x)) / 2 + rq23 * (rq23 * (rq3 * (rq3 * (b - c)))) / 4"
    by (simp add: field_simps)
  then show ?thesis by (simp add: rq23_sq_left rq3_sq_left rq3_sq)
qed

lemma inv_third:
  "rq23 * (- (rq23 * x) / 2 - rq3 * (rq23 * (b * rq3 / 2 - c * rq3 / 2)) / 2) + y / rq3 / rq3
     = - x / 3 - (b - c) / 2 + y / 3"
proof -
  have "rq23 * (- (rq23 * x) / 2 - rq3 * (rq23 * (b * rq3 / 2 - c * rq3 / 2)) / 2)
          = - (rq23 * (rq23 * x)) / 2 - rq23 * (rq23 * (rq3 * (rq3 * (b - c)))) / 4"
    by (simp add: field_simps)
  then show ?thesis by (simp add: rq23_sq_left rq3_sq_left rq3_sq)
qed

text \<open>
  C3, the half that holds. The forward transform is \<open>direct_voltage_and_quadrature\<close>;
  the inverse is written twice in \<open>currents_and_fluxes_phases\<close>, once on
  \<open>(isd, isq, iso)\<close> for the phase currents and once on \<open>(fsd, fsq, fso)\<close> for the
  phase fluxes. Loading the forward image of any triple \<open>(a, b, c)\<close> into those
  attributes and applying the inverse returns \<open>(a, b, c)\<close> on both paths, exactly,
  over the reals.
\<close>

theorem dq0_round_trip:
  "(let (xd, xq, x0) = direct_voltage_and_quadrature a b c
    in currents_and_fluxes_phases
         (s\<lparr>isd := xd, isq := xq, iso := x0, fsd := xd, fsq := xq\<rparr>) x0)
   = (a, b, c, a, b, c)"
proof -
  let ?xd = "rq23 * (a - b / 2 - c / 2)"
  let ?xq = "rq23 * (b * rq3 / 2 - c * rq3 / 2)"
  let ?x0 = "(a + b + c) / rq3"
  have "rq23 * ?xd + ?x0 / rq3 = 2 / 3 * (a - b / 2 - c / 2) + (a + b + c) / 3"
    by (rule inv_first)
  also have "\<dots> = a" by argo
  finally have e1: "rq23 * ?xd + ?x0 / rq3 = a" .
  have "rq23 * (- ?xd / 2 + rq3 * ?xq / 2) + ?x0 / rq3
          = - (a - b / 2 - c / 2) / 3 + (b - c) / 2 + (a + b + c) / 3"
    by (rule inv_second)
  also have "\<dots> = b" by argo
  finally have e2: "rq23 * (- ?xd / 2 + rq3 * ?xq / 2) + ?x0 / rq3 = b" .
  have "rq23 * (- ?xd / 2 - rq3 * ?xq / 2) + ?x0 / rq3
          = - (a - b / 2 - c / 2) / 3 - (b - c) / 2 + (a + b + c) / 3"
    by (rule inv_third)
  also have "\<dots> = c" by argo
  finally have e3: "rq23 * (- ?xd / 2 - rq3 * ?xq / 2) + ?x0 / rq3 = c" .
  define s' where "s' = s\<lparr>isd := ?xd, isq := ?xq, iso := ?x0, fsd := ?xd, fsq := ?xq\<rparr>"
  have sel: "isd s' = ?xd" "isq s' = ?xq" "iso s' = ?x0" "fsd s' = ?xd" "fsq s' = ?xq"
    by (simp_all add: s'_def)
  have "currents_and_fluxes_phases s' ?x0 = (a, b, c, a, b, c)"
    unfolding currents_and_fluxes_phases_def by (simp only: sel e1 e2 e3)
  then show ?thesis
    unfolding direct_voltage_and_quadrature_def s'_def by (simp only: Let_def prod.case)
qed

section \<open>The round trip in binary64\<close>

lemma round_half_even_eqI:
  assumes "\<bar>y - of_int q\<bar> < 1 / 2 \<or> (\<bar>y - of_int q\<bar> = 1 / 2 \<and> even q)"
  shows "round_half_even y = q"
proof (cases "of_int q \<le> y")
  case True
  with assms have "y - of_int q \<le> 1 / 2" by linarith
  with True have fl: "\<lfloor>y\<rfloor> = q" by linarith
  show ?thesis
    using assms True unfolding round_half_even_def fl Let_def by auto
next
  case False
  with assms have "of_int q - y \<le> 1 / 2" by linarith
  with False have fl: "\<lfloor>y\<rfloor> = q - 1" by linarith
  have r: "y - of_int (q - 1) = 1 - (of_int q - y)" by simp
  show ?thesis
    using assms False unfolding round_half_even_def fl Let_def r by auto
qed

lemma two_powr_diff: "(2::real) powr (of_int (k - int i)) = 2 powr (of_int k) / 2 ^ i"
  by (simp add: powr_diff powr_realpow)

lemma fl_eqI:
  fixes x :: real and q :: int and i :: nat
  assumes lo: "2 ^ 52 \<le> \<bar>x\<bar> * 2 ^ i" and hi: "\<bar>x\<bar> * 2 ^ i < 2 ^ 53"
    and near: "\<bar>x * 2 ^ i - of_int q\<bar> < 1 / 2 \<or> (\<bar>x * 2 ^ i - of_int q\<bar> = 1 / 2 \<and> even q)"
  shows "fl x = of_int q / 2 ^ i"
proof -
  have x0: "x \<noteq> 0" using lo by auto
  then have ax: "0 < \<bar>x\<bar>" by simp
  have p: "(2::real) powr (of_int (52 - int i)) = 2 ^ 52 / 2 ^ i"
    unfolding two_powr_diff by simp
  have "(2::real) powr (of_int (53 - int i)) = 2 ^ 53 / 2 ^ i"
    unfolding two_powr_diff by simp
  then have p1: "(2::real) powr (of_int (52 - int i + 1)) = 2 ^ 53 / 2 ^ i"
    by (simp add: algebra_simps)
  have pos: "(0::real) < 2 ^ i" by simp
  have "2 ^ 52 / 2 ^ i \<le> \<bar>x\<bar>"
    using lo pos by (simp add: pos_divide_le_eq)
  then have a: "2 powr (of_int (52 - int i)) \<le> \<bar>x\<bar>" unfolding p .
  have "\<bar>x\<bar> < 2 ^ 53 / 2 ^ i"
    using hi pos by (simp add: pos_less_divide_eq)
  then have b: "\<bar>x\<bar> < 2 powr (of_int (52 - int i + 1))" unfolding p1 .
  have e: "\<lfloor>log 2 \<bar>x\<bar>\<rfloor> = 52 - int i"
    using a b ax by (subst floor_log_eq_powr_iff) simp_all
  have "(2::real) powr (of_int (0 - int i)) = 1 / 2 ^ i"
    unfolding two_powr_diff by simp
  then have u: "(2::real) powr (of_int (52 - int i) - 52) = 1 / 2 ^ i"
    by simp
  have "round_half_even (x / (1 / 2 ^ i)) = q"
    using near by (intro round_half_even_eqI) simp
  then show ?thesis
    using x0 unfolding fl_def e u Let_def by simp
qed

lemma direct_voltage_and_quadrature_rd_id:
  "direct_voltage_and_quadrature_rd (\<lambda>x. x) = direct_voltage_and_quadrature"
  by (intro ext)
    (simp add: direct_voltage_and_quadrature_rd_def direct_voltage_and_quadrature_def
      rq23_rd_def rq3_rd_def rq23_def rq3_def)

lemma currents_and_fluxes_phases_rd_id:
  "currents_and_fluxes_phases_rd (\<lambda>x. x) = currents_and_fluxes_phases"
  by (intro ext)
    (simp add: currents_and_fluxes_phases_rd_def currents_and_fluxes_phases_def
      rq23_rd_def rq3_rd_def rq23_def rq3_def)

lemma fl_sqrt_eqI:
  fixes y :: real and q :: int and i :: nat
  assumes q0: "(2::real) ^ 52 + 1 \<le> of_int q" and q1: "of_int q + 1 \<le> (2::real) ^ 53"
    and lo: "((of_int q - 1 / 2) / 2 ^ i) ^ 2 < y"
    and hi: "y < ((of_int q + 1 / 2) / 2 ^ i) ^ 2"
  shows "fl (sqrt y) = of_int q / 2 ^ i"
proof -
  have pos: "(0::real) < 2 ^ i" by simp
  have "(0::real) \<le> of_int q + 1 / 2" using q0 by simp
  then have hpos: "0 \<le> (of_int q + 1 / 2) / (2::real) ^ i" by simp
  have "(0::real) \<le> ((of_int q - 1 / 2) / 2 ^ i) ^ 2" by simp
  with lo have y0: "0 \<le> y" by linarith
  have a: "(of_int q - 1 / 2) / 2 ^ i < sqrt y"
    using lo by (rule real_less_rsqrt)
  have b: "sqrt y < (of_int q + 1 / 2) / 2 ^ i"
    using hpos hi by (intro real_less_lsqrt) simp_all
  from a pos have a': "of_int q - 1 / 2 < sqrt y * 2 ^ i" by (simp add: pos_divide_less_eq)
  from b pos have b': "sqrt y * 2 ^ i < of_int q + 1 / 2" by (simp add: pos_less_divide_eq)
  have s0: "0 \<le> sqrt y" using y0 by simp
  have abs: "\<bar>sqrt y\<bar> = sqrt y" using s0 by simp
  show ?thesis
  proof (rule fl_eqI)
    show "2 ^ 52 \<le> \<bar>sqrt y\<bar> * 2 ^ i" unfolding abs using a' q0 by linarith
    show "\<bar>sqrt y\<bar> * 2 ^ i < 2 ^ 53" unfolding abs using b' q1 by linarith
    show "\<bar>sqrt y * 2 ^ i - of_int q\<bar> < 1 / 2 \<or> (\<bar>sqrt y * 2 ^ i - of_int q\<bar> = 1 / 2 \<and> even q)"
      using a' b' by (intro disjI1) linarith
  qed
qed

lemma fl_sqrt_ratI:
  fixes a b q :: int and i :: nat
  assumes "2 ^ 52 < q" and "q < 2 ^ 53" and b: "0 < b"
    and lo: "(2 * q - 1) ^ 2 * b < a * 4 * 4 ^ i"
    and hi: "a * 4 * 4 ^ i < (2 * q + 1) ^ 2 * b"
  shows "fl (sqrt (of_int a / of_int b)) = of_int q / 2 ^ i"
proof (rule fl_sqrt_eqI)
  have "2 ^ 52 + 1 \<le> q" using assms(1) by simp
  then have "real_of_int (2 ^ 52 + 1) \<le> of_int q" by (simp only: of_int_le_iff)
  then show "(2::real) ^ 52 + 1 \<le> of_int q" by simp
  have "q + 1 \<le> 2 ^ 53" using assms(2) by simp
  then have "real_of_int (q + 1) \<le> of_int (2 ^ 53)" by (simp only: of_int_le_iff)
  then show "of_int q + 1 \<le> (2::real) ^ 53" by simp
  have rb: "(0::real) < of_int b" using b by simp
  have p4: "(0::real) < 4 * 4 ^ i" by simp
  have sq: "((x / 2) / 2 ^ i) ^ 2 = x ^ 2 / (4 * 4 ^ i)" for x :: real
    by (simp add: power_divide power2_eq_square flip: power_mult_distrib)
  have "of_int q - 1 / 2 = (of_int (2 * q - 1) / 2 :: real)" by simp
  then have e1: "(of_int q - 1 / 2) / (2::real) ^ i = (of_int (2 * q - 1) / 2) / 2 ^ i"
    by (simp only:)
  have "of_int q + 1 / 2 = (of_int (2 * q + 1) / 2 :: real)" by simp
  then have e2: "(of_int q + 1 / 2) / (2::real) ^ i = (of_int (2 * q + 1) / 2) / 2 ^ i"
    by (simp only:)
  from lo have "real_of_int ((2 * q - 1) ^ 2 * b) < of_int (a * 4 * 4 ^ i)"
    by (simp only: of_int_less_iff)
  then have "(of_int (2 * q - 1)) ^ 2 * of_int b < of_int a * ((4::real) * 4 ^ i)"
    by (simp add: algebra_simps)
  then have "(of_int (2 * q - 1)) ^ 2 / ((4::real) * 4 ^ i) < of_int a / of_int b"
    using rb p4 by (simp add: field_simps)
  then show "((of_int q - 1 / 2) / 2 ^ i) ^ 2 < (of_int a / of_int b :: real)"
    unfolding e1 sq .
  from hi have "real_of_int (a * 4 * 4 ^ i) < of_int ((2 * q + 1) ^ 2 * b)"
    by (simp only: of_int_less_iff)
  then have "of_int a * ((4::real) * 4 ^ i) < (of_int (2 * q + 1)) ^ 2 * of_int b"
    by (simp add: algebra_simps)
  then have "of_int a / of_int b < (of_int (2 * q + 1)) ^ 2 / ((4::real) * 4 ^ i)"
    using rb p4 by (simp add: field_simps)
  then show "(of_int a / of_int b :: real) < ((of_int q + 1 / 2) / 2 ^ i) ^ 2"
    unfolding e2 sq .
qed


lemma fl_two_thirds: "fl (2 / 3) = 6004799503160661 / 2 ^ 53"
  using fl_eqI [where i = 53 and x = "2 / 3" and q = 6004799503160661] by simp

lemma rq23_fl: "rq23_rd fl = 7354347395230782 / 2 ^ 53"
  unfolding rq23_rd_def fl_two_thirds
  using fl_sqrt_ratI [where a = 6004799503160661 and b = "2 ^ 53" and q = 7354347395230782 and i = 53] by simp

lemma rq3_fl: "rq3_rd fl = 7800463371553962 / 2 ^ 52"
  unfolding rq3_rd_def
  using fl_sqrt_ratI [where a = 3 and b = 1 and q = 7800463371553962 and i = 52] by simp

lemma c3_1: "fl ((- 2000000000000000) / 2) = (- (8000000000000000 / 2 ^ 3))"
  using fl_eqI [where i = 3 and x = "(- 2000000000000000) / 2" and q = "-8000000000000000"] by simp

lemma c3_2: "fl (1000000000000000 - (- (8000000000000000 / 2 ^ 3))) = (8000000000000000 / 2 ^ 2)"
  using fl_eqI [where i = 2 and x = "1000000000000000 - (- (8000000000000000 / 2 ^ 3))" and q = "8000000000000000"] by simp

lemma c3_3: "fl (3 / 2) = (6755399441055744 / 2 ^ 52)"
  using fl_eqI [where i = 52 and x = "3 / 2" and q = "6755399441055744"] by simp

lemma c3_4: "fl ((8000000000000000 / 2 ^ 2) - (6755399441055744 / 2 ^ 52)) = (7999999999999994 / 2 ^ 2)"
  using fl_eqI [where i = 2 and x = "(8000000000000000 / 2 ^ 2) - (6755399441055744 / 2 ^ 52)" and q = "7999999999999994"] by simp

lemma c3_5: "fl ((7354347395230782 / 2 ^ 53) * (7999999999999994 / 2 ^ 2)) = (6531972647421803 / 2 ^ 2)"
  using fl_eqI [where i = 2 and x = "(7354347395230782 / 2 ^ 53) * (7999999999999994 / 2 ^ 2)" and q = "6531972647421803"] by simp

lemma c3_6: "fl ((- 2000000000000000) * (7800463371553962 / 2 ^ 52)) = (- (6928203230275509 / 2 ^ 1))"
  using fl_eqI [where i = 1 and x = "(- 2000000000000000) * (7800463371553962 / 2 ^ 52)" and q = "-6928203230275509"] by simp

lemma c3_7: "fl ((- (6928203230275509 / 2 ^ 1)) / 2) = (- (6928203230275509 / 2 ^ 2))"
  using fl_eqI [where i = 2 and x = "(- (6928203230275509 / 2 ^ 1)) / 2" and q = "-6928203230275509"] by simp

lemma c3_8: "fl (3 * (7800463371553962 / 2 ^ 52)) = (5850347528665472 / 2 ^ 50)"
  using fl_eqI [where i = 50 and x = "3 * (7800463371553962 / 2 ^ 52)" and q = "5850347528665472"] by simp

lemma c3_9: "fl ((5850347528665472 / 2 ^ 50) / 2) = (5850347528665472 / 2 ^ 51)"
  using fl_eqI [where i = 51 and x = "(5850347528665472 / 2 ^ 50) / 2" and q = "5850347528665472"] by simp

lemma c3_10: "fl ((- (6928203230275509 / 2 ^ 2)) - (5850347528665472 / 2 ^ 51)) = (- (6928203230275519 / 2 ^ 2))"
  using fl_eqI [where i = 2 and x = "(- (6928203230275509 / 2 ^ 2)) - (5850347528665472 / 2 ^ 51)" and q = "-6928203230275519"] by simp

lemma c3_11: "fl ((7354347395230782 / 2 ^ 53) * (- (6928203230275519 / 2 ^ 2))) = (- (5656854249492388 / 2 ^ 2))"
  using fl_eqI [where i = 2 and x = "(7354347395230782 / 2 ^ 53) * (- (6928203230275519 / 2 ^ 2))" and q = "-5656854249492388"] by simp

lemma c3_12: "fl (1000000000000000 + (- 2000000000000000)) = (- (8000000000000000 / 2 ^ 3))"
  using fl_eqI [where i = 3 and x = "1000000000000000 + (- 2000000000000000)" and q = "-8000000000000000"] by simp

lemma c3_13: "fl ((- (8000000000000000 / 2 ^ 3)) + 3) = (- (7999999999999976 / 2 ^ 3))"
  using fl_eqI [where i = 3 and x = "(- (8000000000000000 / 2 ^ 3)) + 3" and q = "-7999999999999976"] by simp

lemma c3_14: "fl ((- (7999999999999976 / 2 ^ 3)) / (7800463371553962 / 2 ^ 52)) = (- (4618802153516993 / 2 ^ 3))"
  using fl_eqI [where i = 3 and x = "(- (7999999999999976 / 2 ^ 3)) / (7800463371553962 / 2 ^ 52)" and q = "-4618802153516993"] by simp

lemma c3_15: "fl ((7354347395230782 / 2 ^ 53) * (6531972647421803 / 2 ^ 2)) = (5333333333333329 / 2 ^ 2)"
  using fl_eqI [where i = 2 and x = "(7354347395230782 / 2 ^ 53) * (6531972647421803 / 2 ^ 2)" and q = "5333333333333329"] by simp

lemma c3_16: "fl ((- (4618802153516993 / 2 ^ 3)) / (7800463371553962 / 2 ^ 52)) = (- (5333333333333318 / 2 ^ 4))"
  using fl_eqI [where i = 4 and x = "(- (4618802153516993 / 2 ^ 3)) / (7800463371553962 / 2 ^ 52)" and q = "-5333333333333318"] by simp

lemma c3_17: "fl ((5333333333333329 / 2 ^ 2) + (- (5333333333333318 / 2 ^ 4))) = (7999999999999999 / 2 ^ 3)"
  using fl_eqI [where i = 3 and x = "(5333333333333329 / 2 ^ 2) + (- (5333333333333318 / 2 ^ 4))" and q = "7999999999999999"] by simp

lemma c3_18: "fl ((- (6531972647421803 / 2 ^ 2)) / 2) = (- (6531972647421803 / 2 ^ 3))"
  using fl_eqI [where i = 3 and x = "(- (6531972647421803 / 2 ^ 2)) / 2" and q = "-6531972647421803"] by simp

lemma c3_19: "fl ((7800463371553962 / 2 ^ 52) * (- (5656854249492388 / 2 ^ 2))) = (- (4898979485566363 / 2 ^ 1))"
  using fl_eqI [where i = 1 and x = "(7800463371553962 / 2 ^ 52) * (- (5656854249492388 / 2 ^ 2))" and q = "-4898979485566363"] by simp

lemma c3_20: "fl ((- (4898979485566363 / 2 ^ 1)) / 2) = (- (4898979485566363 / 2 ^ 2))"
  using fl_eqI [where i = 2 and x = "(- (4898979485566363 / 2 ^ 1)) / 2" and q = "-4898979485566363"] by simp

lemma c3_21: "fl ((- (6531972647421803 / 2 ^ 3)) + (- (4898979485566363 / 2 ^ 2))) = (- (8164965809277264 / 2 ^ 2))"
  using fl_eqI [where i = 2 and x = "(- (6531972647421803 / 2 ^ 3)) + (- (4898979485566363 / 2 ^ 2))" and q = "-8164965809277264"] by simp

lemma c3_22: "fl ((7354347395230782 / 2 ^ 53) * (- (8164965809277264 / 2 ^ 2))) = (- (6666666666666670 / 2 ^ 2))"
  using fl_eqI [where i = 2 and x = "(7354347395230782 / 2 ^ 53) * (- (8164965809277264 / 2 ^ 2))" and q = "-6666666666666670"] by simp

lemma c3_23: "fl ((- (6666666666666670 / 2 ^ 2)) + (- (5333333333333318 / 2 ^ 4))) = (- (8000000000000000 / 2 ^ 2))"
  using fl_eqI [where i = 2 and x = "(- (6666666666666670 / 2 ^ 2)) + (- (5333333333333318 / 2 ^ 4))" and q = "-8000000000000000"] by simp

lemma c3_24: "fl ((- (6531972647421803 / 2 ^ 3)) - (- (4898979485566363 / 2 ^ 2))) = (6531972647421846 / 2 ^ 4)"
  using fl_eqI [where i = 4 and x = "(- (6531972647421803 / 2 ^ 3)) - (- (4898979485566363 / 2 ^ 2))" and q = "6531972647421846"] by simp

lemma c3_25: "fl ((7354347395230782 / 2 ^ 53) * (6531972647421846 / 2 ^ 4)) = (5333333333333364 / 2 ^ 4)"
  using fl_eqI [where i = 4 and x = "(7354347395230782 / 2 ^ 53) * (6531972647421846 / 2 ^ 4)" and q = "5333333333333364"] by simp

lemma c3_26: "fl ((5333333333333364 / 2 ^ 4) + (- (5333333333333318 / 2 ^ 4))) = (6473924464345088 / 2 ^ 51)"
  using fl_eqI [where i = 51 and x = "(5333333333333364 / 2 ^ 4) + (- (5333333333333318 / 2 ^ 4))" and q = "6473924464345088"] by simp

lemmas c3_steps = c3_1 c3_2 c3_3 c3_4 c3_5 c3_6 c3_7 c3_8 c3_9 c3_10 c3_11 c3_12 c3_13 c3_14 c3_15 c3_16 c3_17 c3_18 c3_19 c3_20 c3_21 c3_22 c3_23 c3_24 c3_25 c3_26

text \<open>
  C3 as stated fails in its floating-point half. In binary64 the forward transform of
  the triple \<open>(1e15, -2e15, 3)\<close> and the inverse applied to its result give back
  \<open>2.875\<close> for the third component, on the current path and on the flux path alike:
  an error of \<open>0.125\<close>, far above \<open>1e-9\<close>. Every rounding of the two computations is
  one of the lemmas \<open>c3_1\<close> to \<open>c3_26\<close> above.
\<close>

theorem dq0_round_trip_binary64:
  "direct_voltage_and_quadrature_rd fl 1000000000000000 (- 2000000000000000) 3
     = ((6531972647421803 / 2 ^ 2), (- (5656854249492388 / 2 ^ 2)), (- (4618802153516993 / 2 ^ 3)))
   \<and> currents_and_fluxes_phases_rd fl
        (example_motor\<lparr>isd := (6531972647421803 / 2 ^ 2), isq := (- (5656854249492388 / 2 ^ 2)), iso := (- (4618802153516993 / 2 ^ 3)), fsd := (6531972647421803 / 2 ^ 2), fsq := (- (5656854249492388 / 2 ^ 2))\<rparr>) (- (4618802153516993 / 2 ^ 3))
     = ((7999999999999999 / 2 ^ 3), (- (8000000000000000 / 2 ^ 2)), (6473924464345088 / 2 ^ 51), (7999999999999999 / 2 ^ 3), (- (8000000000000000 / 2 ^ 2)), (6473924464345088 / 2 ^ 51))
   \<and> (6473924464345088 / 2 ^ 51 :: real) = 23 / 8
   \<and> (1 / 10 ^ 9 :: real) < \<bar>6473924464345088 / 2 ^ 51 - 3\<bar>"
proof -
  define S where "S = example_motor\<lparr>isd := (6531972647421803 / 2 ^ 2), isq := (- (5656854249492388 / 2 ^ 2)), iso := (- (4618802153516993 / 2 ^ 3)), fsd := (6531972647421803 / 2 ^ 2), fsq := (- (5656854249492388 / 2 ^ 2))\<rparr>"
  have sel: "isd S = (6531972647421803 / 2 ^ 2)" "isq S = (- (5656854249492388 / 2 ^ 2))" "iso S = (- (4618802153516993 / 2 ^ 3))" "fsd S = (6531972647421803 / 2 ^ 2)" "fsq S = (- (5656854249492388 / 2 ^ 2))"
    by (simp_all add: S_def)
  have fwd: "direct_voltage_and_quadrature_rd fl 1000000000000000 (- 2000000000000000) 3
     = ((6531972647421803 / 2 ^ 2), (- (5656854249492388 / 2 ^ 2)), (- (4618802153516993 / 2 ^ 3)))"
    unfolding direct_voltage_and_quadrature_rd_def rq23_fl rq3_fl by (simp only: c3_steps)
  have inv: "currents_and_fluxes_phases_rd fl S (- (4618802153516993 / 2 ^ 3))
     = ((7999999999999999 / 2 ^ 3), (- (8000000000000000 / 2 ^ 2)), (6473924464345088 / 2 ^ 51), (7999999999999999 / 2 ^ 3), (- (8000000000000000 / 2 ^ 2)), (6473924464345088 / 2 ^ 51))"
    unfolding currents_and_fluxes_phases_rd_def sel rq23_fl rq3_fl by (simp only: c3_steps)
  have val: "(6473924464345088 / 2 ^ 51 :: real) = 23 / 8" by simp
  have far: "(1 / 10 ^ 9 :: real) < \<bar>6473924464345088 / 2 ^ 51 - 3\<bar>" by simp
  from fwd inv val far show ?thesis unfolding S_def by (intro conjI)
qed

section \<open>Load torque\<close>

text \<open>
  C5, as the code has it. \<open>load_torque\<close> has one branch: it stores 40 in \<open>cl\<close> when
  \<open>t \<ge> tmax / 2\<close> and otherwise leaves \<open>cl\<close> as it was; nothing sets \<open>cl\<close> back to 0.
  So the value after the call is 40 from the threshold on, and below the threshold it is
  the value before the call: it is 0 there exactly when it was 0 before, as it is after
  \<open>reset_initial_conditions\<close>.
\<close>

theorem load_torque_latches:
  "(tmax s / 2 \<le> t s \<longrightarrow> load_torque s = s\<lparr>cl := 40\<rparr>)
   \<and> (t s < tmax s / 2 \<longrightarrow> load_torque s = s)
   \<and> (cl s = 0 \<longrightarrow> (cl (load_torque s) = 0 \<longleftrightarrow> t s < tmax s / 2))"
  by (auto simp add: load_torque_def)

theorem load_torque_latches_witness:
  "tmax (example_motor\<lparr>t := 1 / 2\<rparr>) / 2 \<le> t (example_motor\<lparr>t := 1 / 2\<rparr>)
   \<and> cl (load_torque (example_motor\<lparr>t := 1 / 2\<rparr>)) = 40
   \<and> t (example_motor\<lparr>t := 49999 / 100000\<rparr>)
       < tmax (example_motor\<lparr>t := 49999 / 100000\<rparr>) / 2
   \<and> cl (example_motor\<lparr>t := 49999 / 100000\<rparr>) = 0
   \<and> cl (load_torque (example_motor\<lparr>t := 49999 / 100000\<rparr>)) = 0"
  using load_torque_latches [of "example_motor\<lparr>t := 1 / 2\<rparr>"]
    load_torque_latches [of "example_motor\<lparr>t := 49999 / 100000\<rparr>"]
  by (simp add: example_motor_params example_motor_state)

text \<open>
  C5 as stated fails: the reference machine with the load already applied
  (\<open>cl = 40\<close>) and the clock at 0, below \<open>tmax / 2 = 0.5\<close>, keeps load torque 40 after
  \<open>load_torque\<close>, while the same call at the same time on the machine with \<open>cl = 0\<close>
  gives 0. The result depends on the state, not on the time alone.
\<close>

theorem load_torque_state_dependent:
  "t (example_motor\<lparr>cl := 40\<rparr>) < tmax (example_motor\<lparr>cl := 40\<rparr>) / 2
   \<and> cl (load_torque (example_motor\<lparr>cl := 40\<rparr>)) = 40
   \<and> cl (load_torque example_motor) = 0
   \<and> t (example_motor\<lparr>cl := 40\<rparr>) = t example_motor"
  by (simp add: load_torque_def example_motor_params example_motor_state)

section \<open>The thermal update\<close>

lemma calcular_temperatura_eq:
  "calcular_temperatura s h_arg =
     (if m s * C s = 0 then Inl ZeroDivisionError
      else
        let q = (rq23 * isd s + iso s / rq3) ^ 2
              + (rq23 * (- isd s / 2 + rq3 * isq s / 2) + iso s / rq3) ^ 2
              + (rq23 * (- isd s / 2 - rq3 * isq s / 2) + iso s / rq3) ^ 2
        in Inr (s\<lparr>temp := temp s + rs s * q * h s / (m s * C s)\<rparr>,
                temp s + rs s * q * h s / (m s * C s)))"
  by (simp add: calcular_temperatura_def currents_and_fluxes_phases_def Let_def)

lemma calcular_temperatura_value:
  assumes "m s * C s \<noteq> 0"
  shows "calcular_temperatura s h_arg =
           (case currents_and_fluxes_phases s 1 of (i1, i2, i3, f1, f2, f3) \<Rightarrow>
              Inr (s\<lparr>temp := temp s + rs s * (i1 ^ 2 + i2 ^ 2 + i3 ^ 2) * h s / (m s * C s)\<rparr>,
                   temp s + rs s * (i1 ^ 2 + i2 ^ 2 + i3 ^ 2) * h s / (m s * C s)))"
  using assms
  by (simp add: calcular_temperatura_def currents_and_fluxes_phases_def Let_def)

text \<open>
  C6. With the thermal constants of \<open>reset_initial_conditions\<close>, \<open>m = 65 / 1.5\<close> and
  \<open>C = 0.385\<close>, one call of \<open>calcular_temperatura\<close> adds exactly
  \<open>rs * (i1\<^sup>2 + i2\<^sup>2 + i3\<^sup>2) * h / (m * C)\<close> to \<open>temp\<close>, where \<open>i1\<close>, \<open>i2\<close>, \<open>i3\<close> are
  the phase currents that \<open>currents_and_fluxes_phases(1)\<close> returns and \<open>h\<close> is the
  attribute \<open>self.h\<close> (the argument of the call is not read). The step size enters
  once, inside the increment; the update is \<open>temp += dT\<close>. The call returns the new
  temperature.
\<close>

theorem thermal_increment:
  assumes "m s = 65 / 1.5" and "C s = 0.385"
  shows "case currents_and_fluxes_phases s 1 of (i1, i2, i3, f1, f2, f3) \<Rightarrow>
           calcular_temperatura s h_arg =
             Inr (s\<lparr>temp := temp s
                        + rs s * (i1 ^ 2 + i2 ^ 2 + i3 ^ 2) * h s / (65 / 1.5 * 0.385)\<rparr>,
                  temp s + rs s * (i1 ^ 2 + i2 ^ 2 + i3 ^ 2) * h s / (65 / 1.5 * 0.385))"
proof -
  have mc: "m s * C s = 65 / 1.5 * 0.385" by (simp only: assms)
  have "m s * C s \<noteq> 0" unfolding mc by simp
  from calcular_temperatura_value [OF this, of h_arg] show ?thesis
    unfolding mc by (simp only: split: prod.splits) simp
qed

theorem thermal_increment_witness:
  "m (example_motor\<lparr>iso := 3\<rparr>) = 65 / 1.5 \<and> C (example_motor\<lparr>iso := 3\<rparr>) = 0.385
   \<and> calcular_temperatura (example_motor\<lparr>iso := 3\<rparr>) 7 =
       Inr (example_motor\<lparr>iso := 3, temp := 25 + 81 / 38500000\<rparr>, 25 + 81 / 38500000)"
  using thermal_increment [of "example_motor\<lparr>iso := 3\<rparr>" 7]
  by (simp add: example_motor_params example_motor_state currents_and_fluxes_phases_def
        rq3_def power_divide)

text \<open>
  C10. The first three components of \<open>currents_and_fluxes_phases\<close>, the phase
  currents, are the same for any two values of the argument \<open>fso\<close>. So the temperature
  that \<open>calcular_temperatura\<close> computes with the dummy argument 1 is the one computed
  from the phase currents of the state under any \<open>fso\<close>.
\<close>

theorem phase_currents_ignore_fso:
  "(case (currents_and_fluxes_phases s fso, currents_and_fluxes_phases s fso') of
      ((i1, i2, i3, f1, f2, f3), (k1, k2, k3, g1, g2, g3)) \<Rightarrow> i1 = k1 \<and> i2 = k2 \<and> i3 = k3)
   \<and> (case currents_and_fluxes_phases s fso of (i1, i2, i3, f1, f2, f3) \<Rightarrow>
        calcular_temperatura s h_arg =
          (if m s * C s = 0 then Inl ZeroDivisionError
           else Inr (s\<lparr>temp := temp s
                          + rs s * (sqrt (i1 ^ 2 + i2 ^ 2 + i3 ^ 2)) ^ 2 * h s / (m s * C s)\<rparr>,
                     temp s + rs s * (sqrt (i1 ^ 2 + i2 ^ 2 + i3 ^ 2)) ^ 2 * h s / (m s * C s))))"
  by (simp add: calcular_temperatura_def currents_and_fluxes_phases_def Let_def)

section \<open>What the constructor accepts\<close>

text \<open>
  C9. The constructor takes no step size and no sampling interval: it sets
  \<open>h = 1e-5\<close>, \<open>tmax = 1\<close> and \<open>hp = tmax / 2000\<close>, raised to \<open>h\<close> when smaller. It fails
  with the division error whenever the friction coefficient is zero or
  \<open>ls * lr = msr * msr\<close>. Every object it returns has \<open>0 < h \<le> hp\<close>, a nonzero
  determinant and \<open>idt\<close> its inverse.
\<close>

theorem construction_rejects_or_valid:
  "(kf0 = 0 \<or> ls0 * lr0 = mrs * mrs \<longrightarrow>
      Motor rs0 rr0 ls0 lr0 mrs jm0 kf0 q10 q20 q30 mu = Inl ZeroDivisionError)
   \<and> (\<forall>s. Motor rs0 rr0 ls0 lr0 mrs jm0 kf0 q10 q20 q30 mu = Inr s \<longrightarrow>
         0 < h s \<and> h s \<le> hp s \<and> ls s * lr s \<noteq> msr s * msr s
         \<and> idt s * (ls s * lr s - msr s * msr s) = 1
         \<and> ls s = ls0 \<and> lr s = lr0 \<and> msr s = mrs)"
  by (auto simp add: Motor_def reset_initial_conditions_def Let_def)

section \<open>One pass through the loop body\<close>

lemma source_voltage_eq:
  "source_voltage s =
     (let x = (if 2 * pi \<le> tete s + h s * ws s then tete s + h s * ws s - 2 * pi
               else tete s + h s * ws s)
      in (s\<lparr>tete := x\<rparr>, Vs s * cos x, Vs s * cos (x - pi23), Vs s * cos (x + pi23)))"
  by (simp add: source_voltage_def Let_def)

lemma load_torque_eq:
  "load_torque s = s\<lparr>cl := (if tmax s / 2 \<le> t s then 40 else cl s)\<rparr>"
  by (simp add: load_torque_def)

lemma calculate_derivatives_eq:
  "calculate_derivatives s vsd vsq vso =
     (if lso s = 0 then Inl ZeroDivisionError
      else Inr (vsd - rs s * isd s, vsq - rs s * isq s,
                - rr s * ird s - frq s * wm s, - rr s * irq s + frd s * wm s,
                (vso - rs s * iso s) / lso s))"
  by (simp add: calculate_derivatives_def)

lemma update_fluxes_and_currents_eq:
  "update_fluxes_and_currents s d1 d2 d3 d4 d5 =
     (s\<lparr>fsd := fsd s + d1 * h s, fsq := fsq s + d2 * h s,
        frd := frd s + d3 * h s, frq := frq s + d4 * h s,
        iso := iso s + d5 * h s\<rparr>,
      lso s * (iso s + d5 * h s))"
  by (simp add: update_fluxes_and_currents_def Let_def)

lemma calculate_electromagnetic_torque_eq:
  "calculate_electromagnetic_torque s =
     (s\<lparr>ce := amsr s * (fsq s * frd s - fsd s * frq s),
        isd := idt s * (lr s * fsd s - msr s * frd s),
        isq := idt s * (lr s * fsq s - msr s * frq s),
        ird := idt s * (- msr s * fsd s + ls s * frd s),
        irq := idt s * (- msr s * fsq s + ls s * frq s)\<rparr>,
      amsr s * (fsq s * frd s - fsd s * frq s))"
  by (simp add: calculate_electromagnetic_torque_def Let_def)

lemma mechanical_speed_eq:
  "mechanical_speed s =
     (if jm s = 0 then Inl ZeroDivisionError
      else Inr (wm s + (ce s - cl s - wm s * kf s) * h s / jm s))"
  by (simp add: mechanical_speed_def)

lemma simulate_step_cases:
  assumes "simulate_step s = Inr s'"
  obtains s2 vs1 vs2 vs3 vsd vsq vso d1 d2 d3 d4 d5 s4 fso s5 is1 is2 is3 fs1 fs2 fs3 w s7 temp7
  where "source_voltage (s\<lparr>t := t s + h s\<rparr>) = (s2, vs1, vs2, vs3)"
    and "direct_voltage_and_quadrature vs1 vs2 vs3 = (vsd, vsq, vso)"
    and "calculate_derivatives (load_torque s2) vsd vsq vso = Inr (d1, d2, d3, d4, d5)"
    and "update_fluxes_and_currents (load_torque s2) d1 d2 d3 d4 d5 = (s4, fso)"
    and "fst (calculate_electromagnetic_torque s4) = s5"
    and "currents_and_fluxes_phases s5 fso = (is1, is2, is3, fs1, fs2, fs3)"
    and "mechanical_speed s5 = Inr w"
    and "calcular_temperatura (s5\<lparr>wm := w\<rparr>) (h s5) = Inr (s7, temp7)"
    and "s' = (if tp s7 \<le> t s7
               then outputs (s7\<lparr>temp := temp7, tp := tp s7 + hp s7\<rparr>)
                      is1 is2 is3 fs1 fs2 fs3 fso (mechanical_torque (s5\<lparr>wm := w\<rparr>)) vso vsd vsq
               else s7\<lparr>temp := temp7\<rparr>)"
  using assms unfolding simulate_step_def
  by (auto simp add: Let_def split: prod.splits sum.splits if_splits)

text \<open>
  What one pass of the loop body does to the clock, the recorded times, the load torque
  and the parameters.
\<close>

lemma simulate_step_clock:
  assumes "simulate_step s = Inr s'"
  shows "t s' = t s + h s"
    and "tp s' = (if tp s \<le> t s + h s then tp s + hp s else tp s)"
    and "tempo s' = (if tp s \<le> t s + h s then tempo s @ [t s + h s] else tempo s)"
    and "h s' = h s" and "hp s' = hp s" and "tmax s' = tmax s"
    and "lso s' = lso s" and "jm s' = jm s" and "m s' = m s" and "C s' = C s"
    and "rs s' = rs s" and "Vs s' = Vs s"
    and "cl s' = (if tmax s / 2 \<le> t s + h s then 40 else cl s)"
proof -
  from assms obtain s2 vs1 vs2 vs3 vsd vsq vso d1 d2 d3 d4 d5 s4 fso s5 is1 is2 is3 fs1 fs2 fs3 w s7 temp7
    where sv: "source_voltage (s\<lparr>t := t s + h s\<rparr>) = (s2, vs1, vs2, vs3)"
    and up: "update_fluxes_and_currents (load_torque s2) d1 d2 d3 d4 d5 = (s4, fso)"
    and tq: "fst (calculate_electromagnetic_torque s4) = s5"
    and ct: "calcular_temperatura (s5\<lparr>wm := w\<rparr>) (h s5) = Inr (s7, temp7)"
    and s': "s' = (if tp s7 \<le> t s7
               then outputs (s7\<lparr>temp := temp7, tp := tp s7 + hp s7\<rparr>)
                      is1 is2 is3 fs1 fs2 fs3 fso (mechanical_torque (s5\<lparr>wm := w\<rparr>)) vso vsd vsq
               else s7\<lparr>temp := temp7\<rparr>)"
    by (rule simulate_step_cases)
  from sv [symmetric] obtain x where s2: "s2 = s\<lparr>t := t s + h s, tete := x\<rparr>"
    by (simp add: source_voltage_eq Let_def)
  from up [symmetric] obtain a1 a2 a3 a4 a5
    where s4: "s4 = (load_torque s2)\<lparr>fsd := a1, fsq := a2, frd := a3, frq := a4, iso := a5\<rparr>"
    by (simp add: update_fluxes_and_currents_eq)
  from tq [symmetric] obtain b0 b1 b2 b3 b4
    where s5: "s5 = s4\<lparr>ce := b0, isd := b1, isq := b2, ird := b3, irq := b4\<rparr>"
    by (simp add: calculate_electromagnetic_torque_eq)
  from ct [symmetric] have s7: "s7 = s5\<lparr>wm := w, temp := temp7\<rparr>"
    by (simp add: calcular_temperatura_eq Let_def split: if_splits)
  show "t s' = t s + h s"
    and "tp s' = (if tp s \<le> t s + h s then tp s + hp s else tp s)"
    and "tempo s' = (if tp s \<le> t s + h s then tempo s @ [t s + h s] else tempo s)"
    and "h s' = h s" and "hp s' = hp s" and "tmax s' = tmax s"
    and "lso s' = lso s" and "jm s' = jm s" and "m s' = m s" and "C s' = C s"
    and "rs s' = rs s" and "Vs s' = Vs s"
    and "cl s' = (if tmax s / 2 \<le> t s + h s then 40 else cl s)"
    unfolding s' s7 s5 s4 load_torque_eq s2 by (simp_all add: outputs_def)
qed


lemma simulate_step_returns:
  assumes "lso s \<noteq> 0" and "jm s \<noteq> 0" and "m s * C s \<noteq> 0"
  shows "\<exists>s'. simulate_step s = Inr s'"
proof -
  obtain s2 vs1 vs2 vs3 where sv: "source_voltage (s\<lparr>t := t s + h s\<rparr>) = (s2, vs1, vs2, vs3)"
    by (rule prod_cases4)
  from sv [symmetric] obtain x where s2: "s2 = s\<lparr>t := t s + h s, tete := x\<rparr>"
    by (simp add: source_voltage_eq Let_def)
  obtain vsd vsq vso where dq: "direct_voltage_and_quadrature vs1 vs2 vs3 = (vsd, vsq, vso)"
    by (rule prod_cases3)
  have "lso (load_torque s2) \<noteq> 0"
    using assms(1) by (simp add: load_torque_eq s2)
  then obtain d1 d2 d3 d4 d5
    where cd: "calculate_derivatives (load_torque s2) vsd vsq vso = Inr (d1, d2, d3, d4, d5)"
    by (simp add: calculate_derivatives_eq)
  obtain s4 fso where up: "update_fluxes_and_currents (load_torque s2) d1 d2 d3 d4 d5 = (s4, fso)"
    by (rule prod.exhaust)
  from up [symmetric] obtain a1 a2 a3 a4 a5
    where s4: "s4 = (load_torque s2)\<lparr>fsd := a1, fsq := a2, frd := a3, frq := a4, iso := a5\<rparr>"
    by (simp add: update_fluxes_and_currents_eq)
  obtain s5 where tq: "fst (calculate_electromagnetic_torque s4) = s5" by simp
  from tq [symmetric] obtain b0 b1 b2 b3 b4
    where s5: "s5 = s4\<lparr>ce := b0, isd := b1, isq := b2, ird := b3, irq := b4\<rparr>"
    by (simp add: calculate_electromagnetic_torque_eq)
  obtain is1 is2 is3 fs1 fs2 fs3
    where cf: "currents_and_fluxes_phases s5 fso = (is1, is2, is3, fs1, fs2, fs3)"
    by (rule prod_cases6)
  have "jm s5 \<noteq> 0"
    using assms(2) by (simp add: s5 s4 load_torque_eq s2)
  then obtain w where ms: "mechanical_speed s5 = Inr w"
    by (simp add: mechanical_speed_eq)
  have "m (s5\<lparr>wm := w\<rparr>) * C (s5\<lparr>wm := w\<rparr>) \<noteq> 0"
    using assms(3) by (simp add: s5 s4 load_torque_eq s2)
  then obtain s7 temp7 where ct: "calcular_temperatura (s5\<lparr>wm := w\<rparr>) (h s5) = Inr (s7, temp7)"
    by (simp add: calcular_temperatura_eq Let_def)
  show ?thesis
    by (simp add: simulate_step_def Let_def sv dq cd up tq cf ms ct)
qed

lemma simulate_step_temp:
  assumes "simulate_step s = Inr s'"
  obtains q where "0 \<le> q" and "temp s' = temp s + rs s * q * h s / (m s * C s)"
proof -
  from assms obtain s2 vs1 vs2 vs3 vsd vsq vso d1 d2 d3 d4 d5 s4 fso s5 is1 is2 is3 fs1 fs2 fs3 w s7 temp7
    where sv: "source_voltage (s\<lparr>t := t s + h s\<rparr>) = (s2, vs1, vs2, vs3)"
    and up: "update_fluxes_and_currents (load_torque s2) d1 d2 d3 d4 d5 = (s4, fso)"
    and tq: "fst (calculate_electromagnetic_torque s4) = s5"
    and ct: "calcular_temperatura (s5\<lparr>wm := w\<rparr>) (h s5) = Inr (s7, temp7)"
    and s': "s' = (if tp s7 \<le> t s7
               then outputs (s7\<lparr>temp := temp7, tp := tp s7 + hp s7\<rparr>)
                      is1 is2 is3 fs1 fs2 fs3 fso (mechanical_torque (s5\<lparr>wm := w\<rparr>)) vso vsd vsq
               else s7\<lparr>temp := temp7\<rparr>)"
    by (rule simulate_step_cases)
  from sv [symmetric] obtain x where s2: "s2 = s\<lparr>t := t s + h s, tete := x\<rparr>"
    by (simp add: source_voltage_eq Let_def)
  from up [symmetric] obtain a1 a2 a3 a4 a5
    where s4: "s4 = (load_torque s2)\<lparr>fsd := a1, fsq := a2, frd := a3, frq := a4, iso := a5\<rparr>"
    by (simp add: update_fluxes_and_currents_eq)
  from tq [symmetric] obtain b0 b1 b2 b3 b4
    where s5: "s5 = s4\<lparr>ce := b0, isd := b1, isq := b2, ird := b3, irq := b4\<rparr>"
    by (simp add: calculate_electromagnetic_torque_eq)
  define q where "q = (rq23 * b1 + a5 / rq3) ^ 2
              + (rq23 * (- b1 / 2 + rq3 * b2 / 2) + a5 / rq3) ^ 2
              + (rq23 * (- b1 / 2 - rq3 * b2 / 2) + a5 / rq3) ^ 2"
  have "0 \<le> q" unfolding q_def by simp
  moreover from ct [symmetric] have "temp7 = temp s + rs s * q * h s / (m s * C s)"
    unfolding q_def s5 s4 load_torque_eq s2
    by (simp add: calcular_temperatura_eq Let_def split: if_splits)
  moreover have "temp s' = temp7"
    unfolding s' by (simp add: outputs_def)
  ultimately show thesis using that by simp
qed

lemma source_voltage_zero:
  assumes "source_voltage s = (s2, v1, v2, v3)" and "Vs s = 0"
  shows "v1 = 0" and "v2 = 0" and "v3 = 0"
  using assms by (simp_all add: source_voltage_eq Let_def)

lemma dq_zero:
  assumes "direct_voltage_and_quadrature 0 0 0 = (vsd, vsq, vso)"
  shows "vsd = 0" and "vsq = 0" and "vso = 0"
  using assms by (simp_all add: direct_voltage_and_quadrature_def)

lemma derivatives_zero:
  assumes "calculate_derivatives s 0 0 0 = Inr (d1, d2, d3, d4, d5)"
    and "isd s = 0" "isq s = 0" "ird s = 0" "irq s = 0" "iso s = 0" "wm s = 0"
  shows "d1 = 0" and "d2 = 0" and "d3 = 0" and "d4 = 0" and "d5 = 0"
  using assms by (simp_all add: calculate_derivatives_eq split: if_splits)

lemma simulate_step_rest:
  assumes st: "simulate_step s = Inr s'" and rest: "at_rest s" and v: "Vs s = 0"
  shows "fsd s' = 0" and "fsq s' = 0" and "frd s' = 0" and "frq s' = 0"
    and "isd s' = 0" and "isq s' = 0" and "ird s' = 0" and "irq s' = 0" and "iso s' = 0"
    and "ce s' = 0" and "temp s' = temp s"
    and "wm s' = - (if tmax s / 2 \<le> t s + h s then 40 else cl s) * h s / jm s"
proof -
  from st obtain s2 vs1 vs2 vs3 vsd vsq vso d1 d2 d3 d4 d5 s4 fso s5 is1 is2 is3 fs1 fs2 fs3 w s7 temp7
    where sv: "source_voltage (s\<lparr>t := t s + h s\<rparr>) = (s2, vs1, vs2, vs3)"
    and dq: "direct_voltage_and_quadrature vs1 vs2 vs3 = (vsd, vsq, vso)"
    and cd: "calculate_derivatives (load_torque s2) vsd vsq vso = Inr (d1, d2, d3, d4, d5)"
    and up: "update_fluxes_and_currents (load_torque s2) d1 d2 d3 d4 d5 = (s4, fso)"
    and tq: "fst (calculate_electromagnetic_torque s4) = s5"
    and ms: "mechanical_speed s5 = Inr w"
    and ct: "calcular_temperatura (s5\<lparr>wm := w\<rparr>) (h s5) = Inr (s7, temp7)"
    and s': "s' = (if tp s7 \<le> t s7
               then outputs (s7\<lparr>temp := temp7, tp := tp s7 + hp s7\<rparr>)
                      is1 is2 is3 fs1 fs2 fs3 fso (mechanical_torque (s5\<lparr>wm := w\<rparr>)) vso vsd vsq
               else s7\<lparr>temp := temp7\<rparr>)"
    by (rule simulate_step_cases)
  from rest have z: "fsd s = 0" "fsq s = 0" "frd s = 0" "frq s = 0" "isd s = 0" "isq s = 0"
    "ird s = 0" "irq s = 0" "iso s = 0" "wm s = 0" "ce s = 0"
    by (simp_all add: at_rest_def)
  from sv [symmetric] obtain x where s2: "s2 = s\<lparr>t := t s + h s, tete := x\<rparr>"
    by (simp add: source_voltage_eq Let_def)
  have "Vs (s\<lparr>t := t s + h s\<rparr>) = 0" using v by simp
  note vs = source_voltage_zero [OF sv this]
  have dq0: "vsd = 0" "vsq = 0" "vso = 0"
    using dq unfolding vs by (rule dq_zero)+
  have l3: "load_torque s2 = s\<lparr>t := t s + h s, tete := x,
      cl := (if tmax s / 2 \<le> t s + h s then 40 else cl s)\<rparr>"
    unfolding load_torque_eq s2 by simp
  have d: "d1 = 0" "d2 = 0" "d3 = 0" "d4 = 0" "d5 = 0"
    using cd unfolding dq0 l3 by (rule derivatives_zero; simp add: z)+
  from up [symmetric] have s4: "s4 = (s\<lparr>t := t s + h s, tete := x,
      cl := (if tmax s / 2 \<le> t s + h s then 40 else cl s)\<rparr>)\<lparr>fsd := 0, fsq := 0, frd := 0, frq := 0, iso := 0\<rparr>"
    unfolding d l3 by (simp add: update_fluxes_and_currents_eq z)
  from tq [symmetric] have s5: "s5 = s4\<lparr>ce := 0, isd := 0, isq := 0, ird := 0, irq := 0\<rparr>"
    by (simp add: calculate_electromagnetic_torque_eq s4)
  from ms [symmetric] have w: "w = - (if tmax s / 2 \<le> t s + h s then 40 else cl s) * h s / jm s"
    unfolding s5 s4 by (simp add: mechanical_speed_eq z split: if_splits)
  from ct [symmetric] have s7: "s7 = s5\<lparr>wm := w\<rparr>" and t7: "temp7 = temp s"
    unfolding s5 s4 by (simp_all add: calcular_temperatura_eq Let_def split: if_splits)
  show "fsd s' = 0" and "fsq s' = 0" and "frd s' = 0" and "frq s' = 0"
    and "isd s' = 0" and "isq s' = 0" and "ird s' = 0" and "irq s' = 0" and "iso s' = 0"
    and "ce s' = 0" and "temp s' = temp s"
    and "wm s' = - (if tmax s / 2 \<le> t s + h s then 40 else cl s) * h s / jm s"
    unfolding s' s7 t7 s5 s4 w by (simp_all add: outputs_def)
qed

section \<open>The run\<close>


lemma simulate_eq_prefix:
  "simulate n s =
     (case simulate_prefix n s of
        Inl e \<Rightarrow> Some (Inl e)
      | Inr s' \<Rightarrow> if t s' < tmax s' then None else Some (Inr s'))"
proof (induction n arbitrary: s)
  case 0
  show ?case by simp
next
  case (Suc n)
  show ?case
  proof (cases "t s < tmax s")
    case True
    then show ?thesis by (cases "simulate_step s") (simp_all add: Suc.IH)
  next
    case False
    then show ?thesis by simp
  qed
qed

lemma simulate_step_temp_mono:
  assumes "simulate_step s = Inr s'" and "0 \<le> rs s" and "0 \<le> h s" and "0 < m s * C s"
  shows "temp s \<le> temp s'"
proof -
  from assms(1) obtain q where q: "0 \<le> q" and T: "temp s' = temp s + rs s * q * h s / (m s * C s)"
    by (rule simulate_step_temp)
  have "0 \<le> rs s * q * h s" using assms(2,3) q by simp
  then have "0 \<le> rs s * q * h s / (m s * C s)" using assms(4) by simp
  then show ?thesis unfolding T by simp
qed

lemma simulate_prefix_temp_mono:
  assumes "simulate_prefix n s = Inr s'" and "0 \<le> rs s" and "0 \<le> h s" and "0 < m s * C s"
  shows "temp s \<le> temp s'"
  using assms
proof (induction n arbitrary: s)
  case 0
  then show ?case by simp
next
  case (Suc n)
  show ?case
  proof (cases "t s < tmax s")
    case False
    with Suc.prems(1) show ?thesis by simp
  next
    case True
    with Suc.prems(1) obtain s1 where s1: "simulate_step s = Inr s1"
      and r: "simulate_prefix n s1 = Inr s'"
      by (cases "simulate_step s") simp_all
    note c = simulate_step_clock [OF s1]
    have "temp s \<le> temp s1"
      using s1 Suc.prems(2-4) by (rule simulate_step_temp_mono)
    moreover have "temp s1 \<le> temp s'"
      using r Suc.prems(2-4) by (intro Suc.IH) (simp_all add: c)
    ultimately show ?thesis by simp
  qed
qed

lemma calcular_temperatura_mono:
  assumes "0 \<le> rs s" and "0 \<le> h s" and "0 < m s * C s"
  shows "\<exists>s'. calcular_temperatura s h_arg = Inr (s', temp s') \<and> temp s \<le> temp s'"
proof -
  define q where "q = (rq23 * isd s + iso s / rq3) ^ 2
              + (rq23 * (- isd s / 2 + rq3 * isq s / 2) + iso s / rq3) ^ 2
              + (rq23 * (- isd s / 2 - rq3 * isq s / 2) + iso s / rq3) ^ 2"
  have q: "0 \<le> q" unfolding q_def by simp
  have nz: "m s * C s \<noteq> 0" using order.strict_implies_not_eq [OF assms(3)] by (rule not_sym)
  define s' where "s' = s\<lparr>temp := temp s + rs s * q * h s / (m s * C s)\<rparr>"
  have "calcular_temperatura s h_arg = Inr (s', temp s')"
    unfolding calcular_temperatura_eq s'_def q_def Let_def using nz by simp
  moreover have "0 \<le> rs s * q * h s" using assms(1,2) q by simp
  then have "0 \<le> rs s * q * h s / (m s * C s)" using assms(3) by simp
  then have "temp s \<le> temp s'" unfolding s'_def by simp
  ultimately show ?thesis by blast
qed

text \<open>
  C7. Given \<open>rs \<ge> 0\<close>, \<open>h \<ge> 0\<close> and a positive thermal mass \<open>m * C\<close> (the reset
  values give \<open>m * C > 0\<close>), the temperature never decreases: every call of
  \<open>calcular_temperatura\<close> returns a temperature not below the one before it, every pass
  through the loop body does (and keeps the three conditions, so they hold at every
  step of the run), and so does every prefix of the run and the run itself. The code
  has no cooling term.
\<close>

theorem temperature_non_decreasing:
  assumes "0 \<le> rs s" and "0 \<le> h s" and "0 < m s * C s"
  shows "(\<forall>h_arg. \<exists>s'. calcular_temperatura s h_arg = Inr (s', temp s') \<and> temp s \<le> temp s')
       \<and> (\<forall>s'. simulate_step s = Inr s' \<longrightarrow>
              temp s \<le> temp s' \<and> 0 \<le> rs s' \<and> 0 \<le> h s' \<and> 0 < m s' * C s')
       \<and> (\<forall>n s'. simulate_prefix n s = Inr s' \<longrightarrow> temp s \<le> temp s')
       \<and> (\<forall>n s'. simulate n s = Some (Inr s') \<longrightarrow> temp s \<le> temp s')"
proof (intro conjI allI impI)
  fix h_arg
  show "\<exists>s'. calcular_temperatura s h_arg = Inr (s', temp s') \<and> temp s \<le> temp s'"
    using assms by (rule calcular_temperatura_mono)
next
  fix s' assume st: "simulate_step s = Inr s'"
  then show "temp s \<le> temp s'" using assms by (rule simulate_step_temp_mono)
  show "0 \<le> rs s'" and "0 \<le> h s'" and "0 < m s' * C s'"
    using assms by (simp_all add: simulate_step_clock [OF st])
next
  fix n s' assume "simulate_prefix n s = Inr s'"
  then show "temp s \<le> temp s'" using assms by (rule simulate_prefix_temp_mono)
next
  fix n s' assume "simulate n s = Some (Inr s')"
  then have "simulate_prefix n s = Inr s'"
    by (simp add: simulate_eq_prefix split: sum.splits if_splits)
  then show "temp s \<le> temp s'" using assms by (rule simulate_prefix_temp_mono)
qed

lemma example_motor_steps: "\<exists>s'. simulate_step example_motor = Inr s'"
  by (rule simulate_step_returns) (simp_all add: example_motor_params)

theorem temperature_non_decreasing_witness:
  "0 \<le> rs example_motor \<and> 0 \<le> h example_motor \<and> 0 < m example_motor * C example_motor
   \<and> isl (simulate_step example_motor) = False
   \<and> temp example_motor \<le> temp (projr (simulate_step example_motor))"
proof -
  have a: "0 \<le> rs example_motor" "0 \<le> h example_motor" "0 < m example_motor * C example_motor"
    by (simp_all add: example_motor_params)
  from example_motor_steps obtain s' where s': "simulate_step example_motor = Inr s'" ..
  from temperature_non_decreasing [OF a] s' have "temp example_motor \<le> temp s'" by blast
  then show ?thesis using a s' by simp
qed

section \<open>The rest state under zero voltage\<close>

lemma example_motor_constructed:
  "Motor (39 / 100) (141 / 100) (94 / 1000) (94 / 1000) (91 / 1000) (4 / 100) (1 / 100) 1 1 0 1
     = Inr example_motor"
  by (simp add: example_motor_def Motor_def Let_def)

theorem construction_rejects_or_valid_witness:
  "Motor 1 1 1 1 1 1 1 0 0 0 0 = Inl ZeroDivisionError
   \<and> Motor (39 / 100) (141 / 100) (94 / 1000) (94 / 1000) (91 / 1000) (4 / 100) (1 / 100) 1 1 0 1
       = Inr example_motor
   \<and> 0 < h example_motor \<and> h example_motor \<le> hp example_motor
   \<and> idt example_motor
       * (ls example_motor * lr example_motor - msr example_motor * msr example_motor) = 1"
proof -
  have a: "Motor 1 1 1 1 1 1 1 0 0 0 0 = Inl ZeroDivisionError"
    using construction_rejects_or_valid [of 1 1 1 1 1 1 1 0 0 0 0] by simp
  have "0 < h example_motor \<and> h example_motor \<le> hp example_motor
      \<and> idt example_motor
       * (ls example_motor * lr example_motor - msr example_motor * msr example_motor) = 1"
    using construction_rejects_or_valid
      [of "1 / 100" "94 / 1000" "94 / 1000" "91 / 1000" "39 / 100" "141 / 100" "4 / 100" 1 1 0 1]
      example_motor_constructed by blast
  with a example_motor_constructed show ?thesis by simp
qed

lemma rest_prefix:
  assumes "at_rest s" and "Vs s = 0" and "cl s = 0"
    and "lso s \<noteq> 0" and "jm s \<noteq> 0" and "m s * C s \<noteq> 0"
    and "0 \<le> h s" and "0 < tmax s" and "t s + real n * h s < tmax s / 2"
  shows "\<exists>s'. simulate_prefix n s = Inr s' \<and> at_rest s' \<and> cl s' = 0 \<and> temp s' = temp s
           \<and> t s' = t s + real n * h s \<and> Vs s' = 0
           \<and> h s' = h s \<and> tmax s' = tmax s \<and> lso s' = lso s \<and> jm s' = jm s
           \<and> m s' = m s \<and> C s' = C s"
  using assms
proof (induction n arbitrary: s)
  case 0
  then show ?case by simp
next
  case (Suc n)
  have hn: "0 \<le> real n * h s" using Suc.prems(7) by simp
  have lt: "t s + h s + real n * h s < tmax s / 2"
    using Suc.prems(9) by (simp add: algebra_simps)
  with hn have lt1: "t s + h s < tmax s / 2" by linarith
  with Suc.prems(7,8) have guard: "t s < tmax s" by linarith
  from simulate_step_returns [OF Suc.prems(4-6)]
  obtain s1 where s1: "simulate_step s = Inr s1" ..
  note c = simulate_step_clock [OF s1]
  note r = simulate_step_rest [OF s1 Suc.prems(1,2)]
  have w: "wm s1 = 0" using r(12) lt1 Suc.prems(3) by simp
  have rest1: "at_rest s1" using r(1-10) w by (simp add: at_rest_def)
  have cl1: "cl s1 = 0" using c(13) lt1 Suc.prems(3) by simp
  have "\<exists>s'. simulate_prefix n s1 = Inr s' \<and> at_rest s' \<and> cl s' = 0 \<and> temp s' = temp s1
           \<and> t s' = t s1 + real n * h s1 \<and> Vs s' = 0
           \<and> h s' = h s1 \<and> tmax s' = tmax s1 \<and> lso s' = lso s1 \<and> jm s' = jm s1
           \<and> m s' = m s1 \<and> C s' = C s1"
    using rest1 cl1 Suc.prems(2,4-8) lt by (intro Suc.IH) (simp_all add: c)
  then obtain s' where p: "simulate_prefix n s1 = Inr s'" and q: "at_rest s'" "cl s' = 0"
    "temp s' = temp s1" "t s' = t s1 + real n * h s1" "Vs s' = 0"
    "h s' = h s1" "tmax s' = tmax s1" "lso s' = lso s1" "jm s' = jm s1" "m s' = m s1" "C s' = C s1"
    by blast
  have "simulate_prefix (Suc n) s = Inr s'" using guard s1 p by simp
  moreover have "t s' = t s + real (Suc n) * h s"
    using q(4) by (simp add: c algebra_simps)
  ultimately show ?case using q r(11) by (simp add: c)
qed


lemma example_rest:
  "at_rest (example_motor\<lparr>Vs := 0\<rparr>)" "Vs (example_motor\<lparr>Vs := 0\<rparr>) = 0"
  "cl (example_motor\<lparr>Vs := 0\<rparr>) = 0" "lso (example_motor\<lparr>Vs := 0\<rparr>) \<noteq> 0"
  "jm (example_motor\<lparr>Vs := 0\<rparr>) \<noteq> 0"
  "m (example_motor\<lparr>Vs := 0\<rparr>) * C (example_motor\<lparr>Vs := 0\<rparr>) \<noteq> 0"
  "0 \<le> h (example_motor\<lparr>Vs := 0\<rparr>)" "0 < tmax (example_motor\<lparr>Vs := 0\<rparr>)"
  "t (example_motor\<lparr>Vs := 0\<rparr>) + real 49999 * h (example_motor\<lparr>Vs := 0\<rparr>)
     < tmax (example_motor\<lparr>Vs := 0\<rparr>) / 2"
  by (simp_all add: at_rest_def example_motor_params example_motor_state)

lemma rest_kept:
  assumes "simulate_prefix n s = Inr s'" and "cl s' = 0" and "at_rest s" and "Vs s = 0"
  shows "at_rest s' \<and> temp s' = temp s \<and> Vs s' = 0 \<and> cl s = 0"
  using assms
proof (induction n arbitrary: s)
  case 0
  then show ?case by simp
next
  case (Suc n)
  show ?case
  proof (cases "t s < tmax s")
    case False
    with Suc.prems show ?thesis by simp
  next
    case True
    with Suc.prems(1) obtain s1 where s1: "simulate_step s = Inr s1"
      and p: "simulate_prefix n s1 = Inr s'"
      by (cases "simulate_step s") simp_all
    note c = simulate_step_clock [OF s1]
    note r = simulate_step_rest [OF s1 Suc.prems(3,4)]
    have v1: "Vs s1 = 0" using Suc.prems(4) by (simp add: c)
    have zero: "(if tmax s / 2 \<le> t s + h s then 40 else cl s) * h s / jm s = 0"
      if "cl s1 = 0"
      using that unfolding c(13) by (simp split: if_splits)
    have step: "at_rest s1" if "cl s1 = 0"
      using r(1-10) r(12) zero [OF that] by (simp add: at_rest_def)
    have cl0: "cl s = 0" if "cl s1 = 0"
      using that unfolding c(13) by (simp split: if_splits)
    have ih: "at_rest s' \<and> temp s' = temp s1 \<and> Vs s' = 0 \<and> cl s1 = 0" if "at_rest s1"
      using p Suc.prems(2) that v1 by (rule Suc.IH)
    have cl1: "cl s1 = 0"
    proof (rule ccontr)
      assume n0: "cl s1 \<noteq> 0"
      have "cl s' \<noteq> 0" using p n0
      proof (induction n arbitrary: s1)
        case 0
        then show ?case by simp
      next
        case (Suc k)
        show ?case
        proof (cases "t s1 < tmax s1")
          case False
          with Suc.prems show ?thesis by simp
        next
          case True
          with Suc.prems(1) obtain s2 where s2: "simulate_step s1 = Inr s2"
            and p2: "simulate_prefix k s2 = Inr s'"
            by (cases "simulate_step s1") simp_all
          have "cl s2 \<noteq> 0"
            using Suc.prems(2) unfolding simulate_step_clock(13) [OF s2] by simp
          with p2 show ?thesis by (rule Suc.IH)
        qed
      qed
      with Suc.prems(2) show False by simp
    qed
    from ih [OF step [OF cl1]] r(11) cl0 [OF cl1] show ?thesis by simp
  qed
qed

text \<open>
  C4. With zero source-voltage amplitude (\<open>Vs = 0\<close>), a machine at rest stays at rest
  for as long as the load torque is zero: if the first \<open>n\<close> iterations of the run end
  in a state whose load torque \<open>cl\<close> is 0 (the code only ever sets \<open>cl\<close> to 40, so it
  was 0 at every step before), then in that state every flux, every current, the
  speed and the electromagnetic torque are still zero and the temperature is the
  initial one. This holds for every \<open>n\<close>, so for every step of the run taken under
  zero load torque.
\<close>

theorem zero_input_rest_fixed_point:
  assumes "at_rest s" and "Vs s = 0" and "simulate_prefix n s = Inr s'" and "cl s' = 0"
  shows "at_rest s' \<and> temp s' = temp s \<and> Vs s' = 0 \<and> cl s = 0"
  using assms(3,4,1,2) by (rule rest_kept)

theorem zero_input_rest_fixed_point_witness:
  "at_rest (example_motor\<lparr>Vs := 0\<rparr>) \<and> Vs (example_motor\<lparr>Vs := 0\<rparr>) = 0
   \<and> isl (simulate_prefix 49999 (example_motor\<lparr>Vs := 0\<rparr>)) = False
   \<and> cl (projr (simulate_prefix 49999 (example_motor\<lparr>Vs := 0\<rparr>))) = 0
   \<and> t (projr (simulate_prefix 49999 (example_motor\<lparr>Vs := 0\<rparr>))) = 49999 / 100000
   \<and> at_rest (projr (simulate_prefix 49999 (example_motor\<lparr>Vs := 0\<rparr>)))
   \<and> temp (projr (simulate_prefix 49999 (example_motor\<lparr>Vs := 0\<rparr>))) = 25"
proof -
  let ?e = "example_motor\<lparr>Vs := 0\<rparr>"
  from rest_prefix [OF example_rest]
  obtain s' where p: "simulate_prefix 49999 ?e = Inr s'" and c: "cl s' = 0"
    and tt: "t s' = t ?e + real 49999 * h ?e"
    by blast
  from zero_input_rest_fixed_point [OF example_rest(1,2) p c]
  have "at_rest s'" and "temp s' = temp ?e" by simp_all
  then show ?thesis
    using p c tt example_rest(1,2) by (simp add: example_motor_params example_motor_state)
qed

section \<open>Output sampling\<close>














end
